theory Spec2Isabelle
  imports Main "HOL-Library.Word"
begin

unbundle bit_operations_syntax

section \<open>Program descriptors (src/include/program_loading.h)\<close>

text \<open>
  The header's anonymous enum: \<^verbatim>\<open>SEG_FINAL = 1 << 0\<close>. Segment flags are a C
  \<^verbatim>\<open>int\<close>, used as a bit set.
\<close>

definition SEG_FINAL :: "32 word" where
  "SEG_FINAL = push_bit 0 1"

datatype prog_type =
    PROG_UNKNOWN
  | PROG_BOOTBLOCK
  | PROG_VERSTAGE
  | PROG_ROMSTAGE
  | PROG_RAMSTAGE
  | PROG_REFCODE
  | PROG_PAYLOAD
  | PROG_BL31
  | PROG_BL32
  | PROG_POSTCAR
  | PROG_OPENSBI

text \<open>
  Modelled from the spec: \<^verbatim>\<open>struct region_device\<close> is declared in
  commonlib/region.h, which is not among the sources. The spec calls it a Region
  Descriptor, "an addressable, sizeable span of memory or storage content": the
  address space the span lies in (absent in a zero-initialised descriptor), where the
  span starts and how long it is. The type parameter is the width of
  \<^verbatim>\<open>uintptr_t\<close>, \<^verbatim>\<open>size_t\<close> and of pointers on the target.
\<close>

type_synonym space_id = nat

record (overloaded) 'a region_device =
  rdev_space :: "space_id option"
  rdev_offset :: "'a word"
  rdev_size :: "'a word"

definition rdev_unbound :: "'a::len region_device" where
  "rdev_unbound = \<lparr>rdev_space = None, rdev_offset = 0, rdev_size = 0\<rparr>"

text \<open>
  \<^verbatim>\<open>struct prog\<close>. The name is the C string; \<^verbatim>\<open>entry\<close> and \<^verbatim>\<open>arg\<close> are
  pointers (0 is NULL); \<^verbatim>\<open>enum cbfs_type\<close> comes from a header that is not among
  the sources and is kept as its 32-bit value.
\<close>

record (overloaded) 'a prog =
  type :: prog_type
  cbfs_type :: "32 word"
  name :: string
  rdev :: "'a region_device"
  entry :: "'a word"
  arg :: "'a word"

text \<open>
  \<^verbatim>\<open>PROG_INIT(type_, name_)\<close>: a designated initialiser, so every field it does not
  name is zero.
\<close>

definition PROG_INIT :: "prog_type \<Rightarrow> string \<Rightarrow> 'a::len prog" where
  "PROG_INIT type_a name_a =
     \<lparr>type = type_a, cbfs_type = 0, name = name_a, rdev = rdev_unbound, entry = 0, arg = 0\<rparr>"

definition prog_name :: "'a::len prog \<Rightarrow> string" where
  "prog_name p = name p"

definition prog_type :: "'a::len prog \<Rightarrow> prog_type" where
  "prog_type p = type p"

definition prog_cbfs_type :: "'a::len prog \<Rightarrow> 32 word" where
  "prog_cbfs_type p = cbfs_type p"

definition prog_rdev :: "'a::len prog \<Rightarrow> 'a region_device" where
  "prog_rdev p = rdev p"

definition prog_entry :: "'a::len prog \<Rightarrow> 'a word" where
  "prog_entry p = entry p"

definition prog_entry_arg :: "'a::len prog \<Rightarrow> 'a word" where
  "prog_entry_arg p = arg p"

text \<open>
  Modelled from the spec: \<^verbatim>\<open>rdev_chain\<close> lives in commonlib/region.c, which is
  not among the sources. The spec names it "sub-span chaining" and says of its use here
  that it "binds \<^verbatim>\<open>backing_region\<close> to a sub-span" of the parent and "discards any
  previously bound region reference": the child comes to denote \<^verbatim>\<open>size\<close> bytes at
  \<^verbatim>\<open>offset\<close> inside the parent, in the parent's address space, whatever it held
  before. The spec gives the operation no failure case, and the caller below drops its
  result.
\<close>

definition rdev_chain ::
  "'a::len region_device \<Rightarrow> 'a region_device \<Rightarrow> 'a word \<Rightarrow> 'a word \<Rightarrow> 'a region_device" where
  "rdev_chain child parent offs sz =
     \<lparr>rdev_space = rdev_space parent, rdev_offset = rdev_offset parent + offs, rdev_size = sz\<rparr>"

text \<open>
  \<^verbatim>\<open>addrspace_32bit\<close> is declared \<^verbatim>\<open>extern\<close> in the header and defined elsewhere,
  so the functions that use it take its region descriptor as their first argument.
\<close>

definition prog_memory_init ::
  "'a::len region_device \<Rightarrow> 'a prog \<Rightarrow> 'a word \<Rightarrow> 'a word \<Rightarrow> 'a prog" where
  "prog_memory_init addrspace_32bit p ptr sz =
     p\<lparr>rdev := rdev_chain (rdev p) addrspace_32bit ptr sz\<rparr>"

definition prog_set_area ::
  "'a::len region_device \<Rightarrow> 'a prog \<Rightarrow> 'a word \<Rightarrow> 'a word \<Rightarrow> 'a prog" where
  "prog_set_area addrspace_32bit p start sz = prog_memory_init addrspace_32bit p start sz"

definition prog_set_entry :: "'a::len prog \<Rightarrow> 'a word \<Rightarrow> 'a word \<Rightarrow> 'a prog" where
  "prog_set_entry p e a = (p\<lparr>entry := e\<rparr>)\<lparr>arg := a\<rparr>"

definition prog_set_arg :: "'a::len prog \<Rightarrow> 'a word \<Rightarrow> 'a prog" where
  "prog_set_arg p a = p\<lparr>arg := a\<rparr>"

subsection \<open>Calls into the platform, the architecture and the loaders\<close>

text \<open>
  The header only declares the hooks (\<^verbatim>\<open>platform_segment_loaded\<close>,
  \<^verbatim>\<open>arch_segment_loaded\<close>, \<^verbatim>\<open>prog_locate_hook\<close>, \<^verbatim>\<open>platform_prog_run\<close>,
  \<^verbatim>\<open>arch_prog_run\<close>) and the loader operations. What the dispatch functions do is
  to call them, so a call is recorded as an event with its arguments, in the order the
  calls are made. The arguments are machine words (\<open>'w\<close>) and descriptors (\<open>'p\<close>).
\<close>

datatype ('w, 'p) call =
    Platform_segment_loaded 'w 'w "32 word"
  | Arch_segment_loaded 'w 'w "32 word"
  | Prog_locate_hook prog_type string
  | Is_loader_active string
  | Loader_locate string
  | Platform_prog_run 'p
  | Arch_prog_run 'p

type_synonym 'a event = "('a word, 'a prog) call"

text \<open>
  \<^verbatim>\<open>struct prog_loader_ops\<close>: a name and two function pointers. The header gives
  both an \<^verbatim>\<open>int\<close> result: is_loader_active "returns 1 else 0", read here as the
  predicate the spec speaks of; locate returns "< 0 on error or 0 on success" and
  "locates the rdev representing the file data", read here as \<open>None\<close> on error and
  the located region on success.
\<close>

record (overloaded) 'a prog_loader_ops =
  loader_name :: string
  is_loader_active :: "'a prog \<Rightarrow> bool"
  locate :: "'a prog \<Rightarrow> 'a region_device option"

text \<open>
  Modelled from the spec: the error kinds of its section 7 that the Locator can report;
  the header only says "< 0 on error".
\<close>

datatype locate_error = PolicyDenied | NoActiveLoader | LoaderLocateFailed

text \<open>
  Modelled from the spec: \<^verbatim>\<open>prog_locate\<close> is declared in the header and defined in a
  file that is not among the sources; this is its walk over the loaders. Spec 4.2: the
  strategies are tried in their fixed order; an inactive one is skipped; the first
  active one's locate is called and its result is final; on success the backing region
  is the located one; on failure the backing region is left as it was; with no active
  strategy the result is the error NoActiveLoader. The header's "0 on success, < 0 on
  error" is \<open>None\<close> and \<open>Some\<close> of the error kind.
\<close>

fun try_loaders ::
  "'a::len prog_loader_ops list \<Rightarrow> 'a prog \<Rightarrow> 'a event list \<Rightarrow>
     locate_error option \<times> 'a prog \<times> 'a event list" where
  "try_loaders [] p tr = (Some NoActiveLoader, p, tr)"
| "try_loaders (l # ls) p tr =
     (if is_loader_active l p then
        (case locate l p of
           None \<Rightarrow>
             (Some LoaderLocateFailed, p,
              tr @ [Is_loader_active (loader_name l), Loader_locate (loader_name l)])
         | Some r \<Rightarrow>
             (None, p\<lparr>rdev := r\<rparr>,
              tr @ [Is_loader_active (loader_name l), Loader_locate (loader_name l)]))
      else try_loaders ls p (tr @ [Is_loader_active (loader_name l)]))"

text \<open>
  Modelled from the spec: \<^verbatim>\<open>prog_locate\<close> itself, by 4.2, step 1, and the header's
  comment on \<^verbatim>\<open>prog_locate_hook\<close>. The hook is called first; it sees the type and
  the name only, and a non-zero result prohibits further progress.
\<close>

definition prog_locate ::
  "(prog_type \<Rightarrow> string \<Rightarrow> int) \<Rightarrow> 'a::len prog_loader_ops list \<Rightarrow> 'a prog \<Rightarrow> 'a event list \<Rightarrow>
     locate_error option \<times> 'a prog \<times> 'a event list" where
  "prog_locate prog_locate_hook loaders p tr =
     (if prog_locate_hook (type p) (name p) \<noteq> 0
      then (Some PolicyDenied, p, tr @ [Prog_locate_hook (type p) (name p)])
      else try_loaders loaders p (tr @ [Prog_locate_hook (type p) (name p)]))"

text \<open>
  Modelled from the spec: \<^verbatim>\<open>prog_segment_loaded\<close> is declared in the header and
  defined in a file that is not among the sources. Header comment and spec 4.3: it
  calls \<^verbatim>\<open>platform_segment_loaded\<close> and then \<^verbatim>\<open>arch_segment_loaded\<close> with its own
  arguments.
\<close>

definition prog_segment_loaded ::
  "'a::len word \<Rightarrow> 'a word \<Rightarrow> 32 word \<Rightarrow> 'a event list \<Rightarrow> 'a event list" where
  "prog_segment_loaded start sz flags tr =
     tr @ [Platform_segment_loaded start sz flags, Arch_segment_loaded start sz flags]"

text \<open>
  Modelled from the spec: the load step that copies the segments of a program is not
  among the sources. Spec 4.3 and the header comment: it calls
  \<^verbatim>\<open>prog_segment_loaded\<close> for each segment (start, size) in load order, and
  "the SEG_FINAL flag will be set on the last segment loaded".
\<close>

fun load_segments :: "('a::len word \<times> 'a word) list \<Rightarrow> 'a event list \<Rightarrow> 'a event list" where
  "load_segments [] tr = tr"
| "load_segments [(start, sz)] tr = prog_segment_loaded start sz SEG_FINAL tr"
| "load_segments ((start, sz) # segs) tr =
     load_segments segs (prog_segment_loaded start sz 0 tr)"

text \<open>
  Modelled from the spec: \<^verbatim>\<open>prog_run\<close> is declared in the header and defined in a
  file that is not among the sources. Header comment and spec 4.4:
  \<^verbatim>\<open>platform_prog_run\<close> "is called prior to calling the arch_prog_run", both with
  the descriptor; the transfer of control itself is the architecture's. The model
  returns the descriptor as \<^verbatim>\<open>prog_run\<close> leaves it.
\<close>

definition prog_run :: "'a::len prog \<Rightarrow> 'a event list \<Rightarrow> 'a prog \<times> 'a event list" where
  "prog_run p tr = (p, tr @ [Platform_prog_run p, Arch_prog_run p])"

subsection \<open>What a trace of calls shows\<close>

fun is_loader_locate :: "('w, 'p) call \<Rightarrow> bool" where
  "is_loader_locate (Loader_locate n) = True"
| "is_loader_locate c = False"

definition locate_calls :: "('w, 'p) call list \<Rightarrow> nat" where
  "locate_calls tr = length (filter is_loader_locate tr)"

text \<open>
  A trace of segment calls is well ordered when it is a sequence of pairs: the platform
  hook, then the architecture hook with the same start, size and flags.
\<close>

fun platform_then_arch :: "('w, 'p) call list \<Rightarrow> bool" where
  "platform_then_arch [] = True"
| "platform_then_arch (Platform_segment_loaded s n f # Arch_segment_loaded s' n' f' # tr) =
     (s = s' \<and> n = n' \<and> f = f' \<and> platform_then_arch tr)"
| "platform_then_arch tr = False"

text \<open>The segments a trace reports, one per call of the platform hook, and their flags.\<close>

fun segments_of :: "('w, 'p) call list \<Rightarrow> ('w \<times> 'w) list" where
  "segments_of [] = []"
| "segments_of (Platform_segment_loaded s n f # tr) = (s, n) # segments_of tr"
| "segments_of (c # tr) = segments_of tr"

fun segment_flags :: "('w, 'p) call list \<Rightarrow> 32 word list" where
  "segment_flags [] = []"
| "segment_flags (Platform_segment_loaded s n f # tr) = f # segment_flags tr"
| "segment_flags (c # tr) = segment_flags tr"

definition is_final :: "32 word \<Rightarrow> bool" where
  "is_final flags = (flags AND SEG_FINAL \<noteq> 0)"

text \<open>The two calls that one segment with flags \<open>f\<close> gives rise to.\<close>

definition seg_calls :: "32 word \<Rightarrow> 'a::len word \<times> 'a word \<Rightarrow> 'a event list" where
  "seg_calls f seg =
     [Platform_segment_loaded (fst seg) (snd seg) f, Arch_segment_loaded (fst seg) (snd seg) f]"

subsection \<open>Uses of the interface\<close>

text \<open>
  One operation of the program-loading interface on a descriptor, with its arguments,
  and a sequence of them applied in order to a descriptor and the trace of calls made
  so far.
\<close>

datatype 'w prog_op =
    Op_set_area 'w 'w
  | Op_memory_init 'w 'w
  | Op_set_entry 'w 'w
  | Op_set_arg 'w
  | Op_locate
  | Op_run

fun apply_op ::
  "'a::len region_device \<Rightarrow> (prog_type \<Rightarrow> string \<Rightarrow> int) \<Rightarrow> 'a prog_loader_ops list \<Rightarrow>
     'a word prog_op \<Rightarrow> 'a prog \<times> 'a event list \<Rightarrow> 'a prog \<times> 'a event list" where
  "apply_op A h ls (Op_set_area start sz) (p, tr) = (prog_set_area A p start sz, tr)"
| "apply_op A h ls (Op_memory_init ptr sz) (p, tr) = (prog_memory_init A p ptr sz, tr)"
| "apply_op A h ls (Op_set_entry e a) (p, tr) = (prog_set_entry p e a, tr)"
| "apply_op A h ls (Op_set_arg a) (p, tr) = (prog_set_arg p a, tr)"
| "apply_op A h ls Op_locate (p, tr) = snd (prog_locate h ls p tr)"
| "apply_op A h ls Op_run (p, tr) = prog_run p tr"

fun apply_ops ::
  "'a::len region_device \<Rightarrow> (prog_type \<Rightarrow> string \<Rightarrow> int) \<Rightarrow> 'a prog_loader_ops list \<Rightarrow>
     'a word prog_op list \<Rightarrow> 'a prog \<times> 'a event list \<Rightarrow> 'a prog \<times> 'a event list" where
  "apply_ops A h ls [] st = st"
| "apply_ops A h ls (op # ops) st = apply_ops A h ls ops (apply_op A h ls op st)"

section \<open>AMD 8132 PCI-X tuning (src/unnamed/part_000)\<close>

text \<open>
  The macros of device/pci.h and device/pcix.h that \<^verbatim>\<open>amd8132_pcix_tune_dev\<close>
  uses are not among the sources; they are taken as parameters. The shift counts are
  literals of the function itself.
\<close>

record pcix_consts =
  PCI_HEADER_TYPE_NORMAL :: "32 word"
  PCI_CAP_ID_PCIX :: "32 word"
  PCI_X_CMD :: "32 word"
  PCI_X_STATUS :: "32 word"
  PCI_X_STATUS_MAX_READ :: "32 word"
  PCI_X_STATUS_MAX_SPLIT :: "32 word"
  PCI_X_CMD_DPERR_E :: "32 word"
  PCI_X_CMD_MAX_READ :: "32 word"
  PCI_X_CMD_MAX_SPLIT :: "32 word"

text \<open>
  \<^verbatim>\<open>struct amd8132_bus_info\<close>: two \<^verbatim>\<open>unsigned\<close> and two \<^verbatim>\<open>int\<close> fields. The
  counter of master devices starts at 0 and is only incremented; the one arithmetic
  step on it here is \<^verbatim>\<open>- 1\<close>, which cannot overflow on a count, so it is an
  integer. The field \<^verbatim>\<open>rev\<close> is \<open>bus_rev\<close> here, \<open>rev\<close> being list reversal.
\<close>

record amd8132_bus_info =
  sstatus :: "32 word"
  bus_rev :: "32 word"
  master_devices :: int
  max_func :: int

text \<open>
  What the function reads of \<^verbatim>\<open>struct device\<close>: the header type, and through
  \<^verbatim>\<open>pci_find_capability\<close>, \<^verbatim>\<open>pci_read_config32\<close> and \<^verbatim>\<open>pci_read_config16\<close>
  (none among the sources) the offset of a capability (0 when the device has none) and
  the configuration registers.
\<close>

record pci_device =
  hdr_type :: "32 word"
  find_capability :: "32 word \<Rightarrow> 32 word"
  read_config32 :: "32 word \<Rightarrow> 32 word"
  read_config16 :: "32 word \<Rightarrow> 16 word"

text \<open>A call of \<^verbatim>\<open>pci_write_config16\<close>: the register and the 16-bit value.\<close>

type_synonym pci_write16 = "32 word \<times> 16 word"

text \<open>Lines 94 and 95: the fields of the status register.\<close>

definition status_max_read :: "pcix_consts \<Rightarrow> 32 word \<Rightarrow> 32 word" where
  "status_max_read K status = drop_bit 21 (status AND PCI_X_STATUS_MAX_READ K)"

definition status_max_tran :: "pcix_consts \<Rightarrow> 32 word \<Rightarrow> 32 word" where
  "status_max_tran K status = drop_bit 23 (status AND PCI_X_STATUS_MAX_SPLIT K)"

text \<open>Lines 88 and 97 to 123: \<^verbatim>\<open>max_tran\<close> after the erratum 53 limit.\<close>

definition limit_max_tran :: "amd8132_bus_info \<Rightarrow> 32 word \<Rightarrow> 32 word" where
  "limit_max_tran info max_tran =
     (let sibs = master_devices info - 1 in
      if bus_rev info = 0x01 then
        (if sibs \<ge> 2 then (if max_tran > 1 then 1 else max_tran)
         else if sibs = 1 then (if max_tran > 3 then 3 else max_tran)
         else (if max_tran > 4 then 4 else max_tran))
      else max_tran)"

text \<open>Lines 125 to 135: \<^verbatim>\<open>cmd\<close> as it stands before the comparison with \<^verbatim>\<open>orig_cmd\<close>.\<close>

definition tuned_cmd :: "pcix_consts \<Rightarrow> 32 word \<Rightarrow> 32 word \<Rightarrow> 32 word \<Rightarrow> 32 word" where
  "tuned_cmd K max_read max_tran orig_cmd =
     (let cmd = orig_cmd;
          cmd = (if max_read \<noteq> drop_bit 2 (cmd AND PCI_X_CMD_MAX_READ K)
                 then (cmd AND NOT (PCI_X_CMD_MAX_READ K)) OR push_bit 2 max_read
                 else cmd);
          cmd = (if max_tran \<noteq> drop_bit 4 (cmd AND PCI_X_CMD_MAX_SPLIT K)
                 then (cmd AND NOT (PCI_X_CMD_MAX_SPLIT K)) OR push_bit 4 max_tran
                 else cmd)
      in cmd AND NOT (PCI_X_CMD_DPERR_E K))"

text \<open>
  The whole function, as the list of configuration writes it makes (none or one). The
  \<^verbatim>\<open>printk\<close> is console output and is left out. \<^verbatim>\<open>pci_read_config16\<close> returns 16
  bits, widened to \<^verbatim>\<open>unsigned\<close>; \<^verbatim>\<open>pci_write_config16\<close> takes 16 bits, so
  \<^verbatim>\<open>cmd\<close> is narrowed.
\<close>

definition amd8132_pcix_tune_dev ::
  "pcix_consts \<Rightarrow> pci_device \<Rightarrow> amd8132_bus_info \<Rightarrow> pci_write16 list" where
  "amd8132_pcix_tune_dev K dev info =
     (if hdr_type dev \<noteq> PCI_HEADER_TYPE_NORMAL K then []
      else
        let cap = find_capability dev (PCI_CAP_ID_PCIX K) in
        if cap = 0 then []
        else
          let status = read_config32 dev (cap + PCI_X_STATUS K);
              orig_cmd = ucast (read_config16 dev (cap + PCI_X_CMD K));
              max_read = status_max_read K status;
              max_tran = limit_max_tran info (status_max_tran K status);
              cmd = tuned_cmd K max_read max_tran orig_cmd
          in if orig_cmd \<noteq> cmd then [(cap + PCI_X_CMD K, ucast cmd)] else [])"

section \<open>GPIO configuration of the X12SPW-F (variants/x12spw-f/gpio.c)\<close>

text \<open>
  \<^verbatim>\<open>gpio_table\<close> comes from x12spw_pch_gpio.h and \<^verbatim>\<open>gpio_configure_pads\<close> from
  the SoC code; neither is among the sources, so both are parameters: the table is a
  list of pad configurations, \<^verbatim>\<open>ARRAY_SIZE\<close> is its length, and
  \<^verbatim>\<open>gpio_configure_pads\<close> acts on the state of the pads.
\<close>

definition mainboard_configure_gpios ::
  "('pad list \<Rightarrow> nat \<Rightarrow> 's \<Rightarrow> 's) \<Rightarrow> 'pad list \<Rightarrow> 's \<Rightarrow> 's" where
  "mainboard_configure_gpios gpio_configure_pads gpio_table s =
     gpio_configure_pads gpio_table (length gpio_table) s"

definition mainboard_configure_early_gpios ::
  "('pad list \<Rightarrow> nat \<Rightarrow> 's \<Rightarrow> 's) \<Rightarrow> 'pad list \<Rightarrow> 's \<Rightarrow> 's" where
  "mainboard_configure_early_gpios gpio_configure_pads gpio_table s =
     gpio_configure_pads gpio_table (length gpio_table) s"


section \<open>Properties of the Locator\<close>

lemma try_loaders_type: "type (fst (snd (try_loaders ls p tr))) = type p"
  by (induction ls arbitrary: tr) (simp_all split: option.splits)

lemma prog_locate_type: "type (fst (snd (prog_locate h ls p tr))) = type p"
  by (simp add: prog_locate_def try_loaders_type)

lemma try_loaders_failure:
  "fst (try_loaders ls p tr) \<noteq> None \<Longrightarrow> fst (snd (try_loaders ls p tr)) = p"
  by (induction ls arbitrary: tr) (auto split: option.splits if_splits)

text \<open>
  C1. When the policy hook returns a non-zero value for the descriptor's type and name,
  \<^verbatim>\<open>prog_locate\<close> fails at once with the policy-denied error: the descriptor is
  returned as it was, the only call made is the one to the hook, and the number of
  calls to a loader's locate operation is what it was before.
\<close>

theorem prog_locate_policy_denied:
  assumes "prog_locate_hook (type p) (name p) \<noteq> 0"
  shows "prog_locate prog_locate_hook loaders p tr =
           (Some PolicyDenied, p, tr @ [Prog_locate_hook (type p) (name p)])
         \<and> locate_calls (snd (snd (prog_locate prog_locate_hook loaders p tr))) = locate_calls tr"
  using assms by (simp add: prog_locate_def locate_calls_def)

text \<open>
  A hook that denies the verification stage, and a loader that is active and would
  succeed: the loader is never asked.
\<close>

theorem prog_locate_policy_denied_witness:
  "(\<lambda>t n. if t = PROG_VERSTAGE then 1 else 0)
      (type (PROG_INIT PROG_VERSTAGE ''fallback/verstage'' :: 32 prog))
      (name (PROG_INIT PROG_VERSTAGE ''fallback/verstage'' :: 32 prog)) \<noteq> (0::int)
   \<and> prog_locate (\<lambda>t n. if t = PROG_VERSTAGE then 1 else 0)
        [\<lparr>loader_name = ''cbfs'', is_loader_active = (\<lambda>p. True),
          locate = (\<lambda>p. Some \<lparr>rdev_space = Some 1, rdev_offset = 0x1000, rdev_size = 0x200\<rparr>)\<rparr>]
        (PROG_INIT PROG_VERSTAGE ''fallback/verstage'' :: 32 prog) []
      = (Some PolicyDenied, PROG_INIT PROG_VERSTAGE ''fallback/verstage'',
         [Prog_locate_hook PROG_VERSTAGE ''fallback/verstage''])
   \<and> locate_calls (snd (snd (prog_locate (\<lambda>t n. if t = PROG_VERSTAGE then 1 else 0)
        [\<lparr>loader_name = ''cbfs'', is_loader_active = (\<lambda>p. True),
          locate = (\<lambda>p. Some \<lparr>rdev_space = Some 1, rdev_offset = 0x1000, rdev_size = 0x200\<rparr>)\<rparr>]
        (PROG_INIT PROG_VERSTAGE ''fallback/verstage'' :: 32 prog) []))) = 0"
  using prog_locate_policy_denied [of "\<lambda>t n. if t = PROG_VERSTAGE then 1 else 0"
      "PROG_INIT PROG_VERSTAGE ''fallback/verstage'' :: 32 prog"
      "[\<lparr>loader_name = ''cbfs'', is_loader_active = (\<lambda>p. True),
          locate = (\<lambda>p. Some \<lparr>rdev_space = Some 1, rdev_offset = 0x1000, rdev_size = 0x200\<rparr>)\<rparr>]"
      "[]"]
  by (simp add: PROG_INIT_def locate_calls_def)

text \<open>
  C4. When \<^verbatim>\<open>prog_locate\<close> fails (the header's result below 0, here an error kind),
  the backing region of the descriptor is the one it had before the call; indeed the
  whole descriptor is.
\<close>

theorem prog_locate_failure_keeps_rdev:
  assumes "fst (prog_locate h ls p tr) \<noteq> None"
  shows "rdev (fst (snd (prog_locate h ls p tr))) = rdev p
         \<and> fst (snd (prog_locate h ls p tr)) = p"
  using assms try_loaders_failure [of ls p "tr @ [Prog_locate_hook (type p) (name p)]"]
  by (simp add: prog_locate_def split: if_splits)

text \<open>
  A descriptor that is already bound, an inactive loader that would succeed and an
  active one that fails: the region stays.
\<close>

theorem prog_locate_failure_keeps_rdev_witness:
  "fst (prog_locate (\<lambda>t n. 0)
        [\<lparr>loader_name = ''mem'', is_loader_active = (\<lambda>p. False),
          locate = (\<lambda>p. Some \<lparr>rdev_space = Some 2, rdev_offset = 0, rdev_size = 0x40\<rparr>)\<rparr>,
         \<lparr>loader_name = ''cbfs'', is_loader_active = (\<lambda>p. True), locate = (\<lambda>p. None)\<rparr>]
        ((PROG_INIT PROG_PAYLOAD ''fallback/payload'' :: 32 prog)
           \<lparr>rdev := \<lparr>rdev_space = Some 1, rdev_offset = 0x1000, rdev_size = 0x200\<rparr>\<rparr>) [])
     = Some LoaderLocateFailed
   \<and> rdev (fst (snd (prog_locate (\<lambda>t n. 0)
        [\<lparr>loader_name = ''mem'', is_loader_active = (\<lambda>p. False),
          locate = (\<lambda>p. Some \<lparr>rdev_space = Some 2, rdev_offset = 0, rdev_size = 0x40\<rparr>)\<rparr>,
         \<lparr>loader_name = ''cbfs'', is_loader_active = (\<lambda>p. True), locate = (\<lambda>p. None)\<rparr>]
        ((PROG_INIT PROG_PAYLOAD ''fallback/payload'' :: 32 prog)
           \<lparr>rdev := \<lparr>rdev_space = Some 1, rdev_offset = 0x1000, rdev_size = 0x200\<rparr>\<rparr>) [])))
     = \<lparr>rdev_space = Some 1, rdev_offset = 0x1000, rdev_size = 0x200\<rparr>"
  using prog_locate_failure_keeps_rdev [of "\<lambda>t n. 0"
        "[\<lparr>loader_name = ''mem'', is_loader_active = (\<lambda>p. False),
          locate = (\<lambda>p. Some \<lparr>rdev_space = Some 2, rdev_offset = 0, rdev_size = 0x40\<rparr>)\<rparr>,
         \<lparr>loader_name = ''cbfs'', is_loader_active = (\<lambda>p. True), locate = (\<lambda>p. None)\<rparr>]"
        "(PROG_INIT PROG_PAYLOAD ''fallback/payload'' :: 32 prog)
           \<lparr>rdev := \<lparr>rdev_space = Some 1, rdev_offset = 0x1000, rdev_size = 0x200\<rparr>\<rparr>" "[]"]
  by (simp add: prog_locate_def PROG_INIT_def)

text \<open>
  The scenario of the spec: loader A is inactive, loader B is active and succeeds.
  \<^verbatim>\<open>prog_locate\<close> succeeds, the region is the one B found, and A's locate is never
  called.
\<close>

lemma prog_locate_inactive_then_active:
  "prog_locate (\<lambda>t n. 0)
     [\<lparr>loader_name = ''A'', is_loader_active = (\<lambda>p. False),
       locate = (\<lambda>p. Some \<lparr>rdev_space = Some 2, rdev_offset = 0, rdev_size = 0x40\<rparr>)\<rparr>,
      \<lparr>loader_name = ''B'', is_loader_active = (\<lambda>p. True),
       locate = (\<lambda>p. Some \<lparr>rdev_space = Some 1, rdev_offset = 0x1000, rdev_size = 0x200\<rparr>)\<rparr>]
     (PROG_INIT PROG_PAYLOAD ''p'' :: 32 prog) []
   = (None,
      (PROG_INIT PROG_PAYLOAD ''p'')
        \<lparr>rdev := \<lparr>rdev_space = Some 1, rdev_offset = 0x1000, rdev_size = 0x200\<rparr>\<rparr>,
      [Prog_locate_hook PROG_PAYLOAD ''p'', Is_loader_active ''A'', Is_loader_active ''B'',
       Loader_locate ''B''])"
  by (simp add: prog_locate_def PROG_INIT_def)

lemma prog_locate_no_active_loader:
  "prog_locate (\<lambda>t n. 0) [] (p :: 32 prog) [] =
     (Some NoActiveLoader, p, [Prog_locate_hook (type p) (name p)])"
  by (simp add: prog_locate_def)

section \<open>Properties of the segment dispatch\<close>

lemma load_segments_calls:
  "segs \<noteq> [] \<Longrightarrow>
   load_segments segs tr =
     tr @ concat (map (seg_calls 0) (butlast segs)) @ seg_calls SEG_FINAL (last segs)"
  by (induction segs tr rule: load_segments.induct)
     (simp_all add: prog_segment_loaded_def seg_calls_def)

lemma platform_then_arch_seg_calls:
  "platform_then_arch (seg_calls f seg @ tr) = platform_then_arch tr"
  by (simp add: seg_calls_def)

lemma platform_then_arch_concat:
  "platform_then_arch (concat (map (seg_calls f) segs) @ tr) = platform_then_arch tr"
  by (induction segs) (simp_all add: platform_then_arch_seg_calls)

lemma segments_of_seg_calls: "segments_of (seg_calls f seg @ tr) = seg # segments_of tr"
  by (simp add: seg_calls_def)

lemma segments_of_concat:
  "segments_of (concat (map (seg_calls f) segs) @ tr) = segs @ segments_of tr"
  by (induction segs) (simp_all add: segments_of_seg_calls)

lemma segment_flags_seg_calls: "segment_flags (seg_calls f seg @ tr) = f # segment_flags tr"
  by (simp add: seg_calls_def)

lemma segment_flags_concat:
  "segment_flags (concat (map (seg_calls f) segs) @ tr) =
     replicate (length segs) f @ segment_flags tr"
  by (induction segs) (simp_all add: segment_flags_seg_calls)

lemma is_final_SEG_FINAL: "is_final SEG_FINAL"
  by (simp add: is_final_def SEG_FINAL_def)

lemma not_is_final_0: "\<not> is_final 0"
  by (simp add: is_final_def)

text \<open>
  C2. \<^verbatim>\<open>prog_segment_loaded\<close> calls the platform hook and then the architecture hook
  with its own start, size and flags. In the load of a program with at least one
  segment, the trace is a sequence of such pairs, one per segment in load order, and
  exactly one segment carries \<^verbatim>\<open>SEG_FINAL\<close>: the last.
\<close>

theorem segment_dispatch_order_and_final:
  fixes segs :: "('a::len word \<times> 'a word) list" and start sz :: "'a word"
  assumes "segs \<noteq> []"
  shows "prog_segment_loaded start sz flags tr =
           tr @ [Platform_segment_loaded start sz flags, Arch_segment_loaded start sz flags]
         \<and> platform_then_arch (load_segments segs [])
         \<and> segments_of (load_segments segs []) = segs
         \<and> segment_flags (load_segments segs []) = replicate (length segs - 1) 0 @ [SEG_FINAL]
         \<and> length (filter is_final (segment_flags (load_segments segs []))) = 1
         \<and> is_final (last (segment_flags (load_segments segs [])))"
proof -
  let ?tr = "load_segments segs []"
  have eq: "?tr = concat (map (seg_calls 0) (butlast segs)) @ seg_calls SEG_FINAL (last segs) @ []"
    using load_segments_calls [OF assms, of "[]"] by simp
  have one: "prog_segment_loaded start sz flags tr =
           tr @ [Platform_segment_loaded start sz flags, Arch_segment_loaded start sz flags]"
    by (simp add: prog_segment_loaded_def)
  have ord: "platform_then_arch ?tr"
    unfolding eq platform_then_arch_concat platform_then_arch_seg_calls by simp
  have segs: "segments_of ?tr = segs"
    unfolding eq segments_of_concat segments_of_seg_calls using assms by simp
  have fl: "segment_flags ?tr = replicate (length segs - 1) 0 @ [SEG_FINAL]"
    unfolding eq segment_flags_concat segment_flags_seg_calls by simp
  have cnt: "length (filter is_final (segment_flags ?tr)) = 1"
    unfolding fl by (simp add: is_final_SEG_FINAL not_is_final_0)
  have lst: "is_final (last (segment_flags ?tr))"
    unfolding fl by (simp add: is_final_SEG_FINAL)
  from one ord segs fl cnt lst show ?thesis by blast
qed

text \<open>The spec's scenario: three segments of sizes 10, 20 and 5.\<close>

theorem segment_dispatch_order_and_final_witness:
  "[(0x100000 :: 32 word, 10 :: 32 word), (0x200000, 20), (0x300000, 5)] \<noteq> []
   \<and> platform_then_arch
        (load_segments [(0x100000 :: 32 word, 10 :: 32 word), (0x200000, 20), (0x300000, 5)] [])
   \<and> segment_flags
        (load_segments [(0x100000 :: 32 word, 10 :: 32 word), (0x200000, 20), (0x300000, 5)] [])
      = [0, 0, SEG_FINAL]
   \<and> length (filter is_final (segment_flags
        (load_segments [(0x100000 :: 32 word, 10 :: 32 word), (0x200000, 20), (0x300000, 5)] [])))
      = 1"
  using segment_dispatch_order_and_final
    [of "[(0x100000 :: 32 word, 10 :: 32 word), (0x200000, 20), (0x300000, 5)]"
        "0x300000" "5" SEG_FINAL "[]"]
  by (simp add: numeral_3_eq_3 is_final_SEG_FINAL not_is_final_0)


section \<open>Properties of the descriptor operations\<close>

lemma apply_op_type: "type (fst (apply_op A h ls op st)) = type (fst st)"
  by (cases st; cases op)
     (simp_all add: prog_set_area_def prog_memory_init_def prog_set_entry_def prog_set_arg_def
        prog_locate_type prog_run_def)

lemma apply_ops_type: "type (fst (apply_ops A h ls ops st)) = type (fst st)"
  by (induction ops arbitrary: st) (simp_all add: apply_op_type)

text \<open>
  C3. A descriptor made by \<^verbatim>\<open>PROG_INIT(type, name)\<close> keeps its type through every
  sequence of \<^verbatim>\<open>prog_set_area\<close>, \<^verbatim>\<open>prog_memory_init\<close>, \<^verbatim>\<open>prog_set_entry\<close>,
  \<^verbatim>\<open>prog_set_arg\<close>, \<^verbatim>\<open>prog_locate\<close> and \<^verbatim>\<open>prog_run\<close>, with any arguments, any
  policy hook and any loaders: \<^verbatim>\<open>prog_type\<close> returns the type of construction.
\<close>

theorem prog_type_immutable:
  "prog_type (fst (apply_ops A h ls ops (PROG_INIT t n, tr))) = t"
  by (simp add: prog_type_def apply_ops_type PROG_INIT_def)

text \<open>
  C5. \<^verbatim>\<open>prog_set_area\<close> binds the backing region to the span of \<open>sz\<close> bytes at
  \<open>start\<close> in the flat address space \<^verbatim>\<open>addrspace_32bit\<close>; the result does not
  depend on the region that was bound before; no other field of the descriptor
  changes.
\<close>

theorem prog_set_area_binds_span:
  "rdev (prog_set_area A p start sz) =
     \<lparr>rdev_space = rdev_space A, rdev_offset = rdev_offset A + start, rdev_size = sz\<rparr>
   \<and> prog_set_area A (p\<lparr>rdev := r\<rparr>) start sz = prog_set_area A p start sz
   \<and> prog_set_area A p start sz = p\<lparr>rdev := rdev (prog_set_area A p start sz)\<rparr>
   \<and> type (prog_set_area A p start sz) = type p
   \<and> cbfs_type (prog_set_area A p start sz) = cbfs_type p
   \<and> name (prog_set_area A p start sz) = name p
   \<and> entry (prog_set_area A p start sz) = entry p
   \<and> arg (prog_set_area A p start sz) = arg p"
  by (simp add: prog_set_area_def prog_memory_init_def rdev_chain_def)

text \<open>
  C6. \<^verbatim>\<open>prog_run\<close> calls \<^verbatim>\<open>platform_prog_run\<close> and then \<^verbatim>\<open>arch_prog_run\<close>, both
  with the descriptor, and its own code changes no field of the descriptor.
\<close>

theorem prog_run_dispatch:
  "snd (prog_run p tr) = tr @ [Platform_prog_run p, Arch_prog_run p]
   \<and> fst (prog_run p tr) = p
   \<and> type (fst (prog_run p tr)) = type p
   \<and> cbfs_type (fst (prog_run p tr)) = cbfs_type p
   \<and> name (fst (prog_run p tr)) = name p
   \<and> rdev (fst (prog_run p tr)) = rdev p
   \<and> entry (fst (prog_run p tr)) = entry p
   \<and> arg (fst (prog_run p tr)) = arg p"
  by (simp add: prog_run_def)

text \<open>
  C7. \<^verbatim>\<open>prog_set_entry\<close> sets the entry and the argument to the values given,
  whatever they are, and \<^verbatim>\<open>prog_set_arg\<close> sets the argument; type, cbfs type, name
  and backing region are unchanged (and the entry, for \<^verbatim>\<open>prog_set_arg\<close>); after
  \<^verbatim>\<open>prog_set_entry\<close>, \<^verbatim>\<open>prog_entry\<close> and \<^verbatim>\<open>prog_entry_arg\<close> return the two
  values.
\<close>

theorem prog_set_entry_arg_frame:
  "prog_set_entry p e a = p\<lparr>entry := e, arg := a\<rparr>
   \<and> prog_entry (prog_set_entry p e a) = e
   \<and> prog_entry_arg (prog_set_entry p e a) = a
   \<and> type (prog_set_entry p e a) = type p
   \<and> cbfs_type (prog_set_entry p e a) = cbfs_type p
   \<and> name (prog_set_entry p e a) = name p
   \<and> rdev (prog_set_entry p e a) = rdev p
   \<and> prog_set_arg p a = p\<lparr>arg := a\<rparr>
   \<and> prog_entry_arg (prog_set_arg p a) = a
   \<and> prog_entry (prog_set_arg p a) = prog_entry p
   \<and> type (prog_set_arg p a) = type p
   \<and> cbfs_type (prog_set_arg p a) = cbfs_type p
   \<and> name (prog_set_arg p a) = name p
   \<and> rdev (prog_set_arg p a) = rdev p"
  by (simp add: prog_set_entry_def prog_set_arg_def prog_entry_def prog_entry_arg_def)

section \<open>Properties of the PCI-X tuning\<close>

lemma tuned_cmd_dperr_clear: "tuned_cmd K mr mt c AND PCI_X_CMD_DPERR_E K = 0"
  by (simp add: tuned_cmd_def Let_def word_bw_assocs)

lemma ucast_and_clear:
  fixes x d :: "32 word"
  assumes "x AND d = 0"
  shows "(ucast x :: 16 word) AND ucast d = 0"
proof -
  have "(ucast x :: 16 word) AND ucast d = ucast (x AND d)"
    by (rule bit_word_eqI) (auto simp: bit_simps)
  then show ?thesis using assms by simp
qed

text \<open>
  C8. With revision 0x01, \<^verbatim>\<open>max_tran\<close> after the limit is the smaller of the value
  read from the status register and a bound: 1 with three or more master devices
  (\<^verbatim>\<open>sibs >= 2\<close>), 3 with exactly two (\<^verbatim>\<open>sibs == 1\<close>), 4 otherwise. With any other
  revision it is the value read.
\<close>

theorem limit_max_tran_min:
  "limit_max_tran info (status_max_tran K status) =
     (if bus_rev info = 0x01
      then min (status_max_tran K status)
             (if master_devices info \<ge> 3 then 1 else if master_devices info = 2 then 3 else 4)
      else status_max_tran K status)"
  by (auto simp: limit_max_tran_def Let_def min_def)

text \<open>
  Revision 0x01, two master devices, and a status register whose field reads 7: the
  limit is 3.
\<close>

theorem limit_max_tran_min_witness:
  "limit_max_tran \<lparr>sstatus = 0, bus_rev = 1, master_devices = 2, max_func = 0\<rparr>
     (status_max_tran
        \<lparr>PCI_HEADER_TYPE_NORMAL = 0, PCI_CAP_ID_PCIX = 7, PCI_X_CMD = 2, PCI_X_STATUS = 4,
         PCI_X_STATUS_MAX_READ = 0x00600000, PCI_X_STATUS_MAX_SPLIT = 0x03800000,
         PCI_X_CMD_DPERR_E = 1, PCI_X_CMD_MAX_READ = 0xc, PCI_X_CMD_MAX_SPLIT = 0x70\<rparr>
        0x03e00000) = 3"
  using limit_max_tran_min [of "\<lparr>sstatus = 0, bus_rev = 1, master_devices = 2, max_func = 0\<rparr>"
        "\<lparr>PCI_HEADER_TYPE_NORMAL = 0, PCI_CAP_ID_PCIX = 7, PCI_X_CMD = 2, PCI_X_STATUS = 4,
         PCI_X_STATUS_MAX_READ = 0x00600000, PCI_X_STATUS_MAX_SPLIT = 0x03800000,
         PCI_X_CMD_DPERR_E = 1, PCI_X_CMD_MAX_READ = 0xc, PCI_X_CMD_MAX_SPLIT = 0x70\<rparr>"
        "0x03e00000"]
  by (simp add: status_max_tran_def)

text \<open>
  C9. Every write that \<^verbatim>\<open>amd8132_pcix_tune_dev\<close> makes is the only one, goes to the
  PCI-X command register, carries the computed command value with the
  \<^verbatim>\<open>PCI_X_CMD_DPERR_E\<close> bit clear, and is made only when the computed value differs
  from the value read at the start.
\<close>

theorem tune_dev_write_guard:
  assumes "w \<in> set (amd8132_pcix_tune_dev K dev info)"
  shows "(let cap = find_capability dev (PCI_CAP_ID_PCIX K);
              status = read_config32 dev (cap + PCI_X_STATUS K);
              orig_cmd = ucast (read_config16 dev (cap + PCI_X_CMD K));
              cmd = tuned_cmd K (status_max_read K status)
                      (limit_max_tran info (status_max_tran K status)) orig_cmd
          in amd8132_pcix_tune_dev K dev info = [w]
             \<and> w = (cap + PCI_X_CMD K, ucast cmd)
             \<and> cmd \<noteq> orig_cmd
             \<and> cmd AND PCI_X_CMD_DPERR_E K = 0
             \<and> snd w AND ucast (PCI_X_CMD_DPERR_E K) = 0)"
  using assms
  by (auto simp: amd8132_pcix_tune_dev_def Let_def tuned_cmd_dperr_clear ucast_and_clear
      split: if_splits)


text \<open>
  A device behind a revision 0x01 bridge with three master devices on the bus, with the
  register layout of the PCI-X capability: the command register reads 0x0001, the one
  write clears the parity-error bit and sets the two limits.
\<close>

theorem tune_dev_write_guard_witness:
  "(0x62, 0x1c) \<in> set (amd8132_pcix_tune_dev
      \<lparr>PCI_HEADER_TYPE_NORMAL = 0, PCI_CAP_ID_PCIX = 7, PCI_X_CMD = 2, PCI_X_STATUS = 4,
       PCI_X_STATUS_MAX_READ = 0x00600000, PCI_X_STATUS_MAX_SPLIT = 0x03800000,
       PCI_X_CMD_DPERR_E = 1, PCI_X_CMD_MAX_READ = 0xc, PCI_X_CMD_MAX_SPLIT = 0x70\<rparr>
      \<lparr>hdr_type = 0, find_capability = (\<lambda>i. if i = 7 then 0x60 else 0),
       read_config32 = (\<lambda>r. if r = 0x64 then 0x03e00000 else 0),
       read_config16 = (\<lambda>r. if r = 0x62 then 0x0001 else 0)\<rparr>
      \<lparr>sstatus = 0, bus_rev = 1, master_devices = 3, max_func = 0\<rparr>)
   \<and> amd8132_pcix_tune_dev
      \<lparr>PCI_HEADER_TYPE_NORMAL = 0, PCI_CAP_ID_PCIX = 7, PCI_X_CMD = 2, PCI_X_STATUS = 4,
       PCI_X_STATUS_MAX_READ = 0x00600000, PCI_X_STATUS_MAX_SPLIT = 0x03800000,
       PCI_X_CMD_DPERR_E = 1, PCI_X_CMD_MAX_READ = 0xc, PCI_X_CMD_MAX_SPLIT = 0x70\<rparr>
      \<lparr>hdr_type = 0, find_capability = (\<lambda>i. if i = 7 then 0x60 else 0),
       read_config32 = (\<lambda>r. if r = 0x64 then 0x03e00000 else 0),
       read_config16 = (\<lambda>r. if r = 0x62 then 0x0001 else 0)\<rparr>
      \<lparr>sstatus = 0, bus_rev = 1, master_devices = 3, max_func = 0\<rparr> = [(0x62, 0x1c)]
   \<and> (0x1c :: 16 word) AND ucast (1 :: 32 word) = 0"
proof -
  let ?K = "\<lparr>PCI_HEADER_TYPE_NORMAL = 0, PCI_CAP_ID_PCIX = 7, PCI_X_CMD = 2, PCI_X_STATUS = 4,
       PCI_X_STATUS_MAX_READ = 0x00600000, PCI_X_STATUS_MAX_SPLIT = 0x03800000,
       PCI_X_CMD_DPERR_E = 1, PCI_X_CMD_MAX_READ = 0xc, PCI_X_CMD_MAX_SPLIT = 0x70\<rparr>"
  let ?dev = "\<lparr>hdr_type = 0, find_capability = (\<lambda>i. if i = 7 then 0x60 else 0),
       read_config32 = (\<lambda>r. if r = 0x64 then 0x03e00000 else 0),
       read_config16 = (\<lambda>r. if r = 0x62 then 0x0001 else 0)\<rparr>"
  let ?info = "\<lparr>sstatus = 0, bus_rev = 1, master_devices = 3, max_func = 0\<rparr>"
  have mem: "(0x62, 0x1c) \<in> set (amd8132_pcix_tune_dev ?K ?dev ?info)"
    by (simp add: amd8132_pcix_tune_dev_def Let_def status_max_read_def status_max_tran_def
          limit_max_tran_def tuned_cmd_def)
  from tune_dev_write_guard [OF mem]
  have "amd8132_pcix_tune_dev ?K ?dev ?info = [(0x62, 0x1c)]
        \<and> snd (0x62 :: 32 word, 0x1c :: 16 word) AND ucast (PCI_X_CMD_DPERR_E ?K) = 0"
    unfolding Let_def by blast
  with mem show ?thesis by simp
qed

section \<open>Properties of the GPIO configuration\<close>

text \<open>
  C10. \<^verbatim>\<open>mainboard_configure_early_gpios\<close> and \<^verbatim>\<open>mainboard_configure_gpios\<close> are the
  same function of the pad state: each is one call of \<^verbatim>\<open>gpio_configure_pads\<close> with
  \<^verbatim>\<open>gpio_table\<close> and its number of entries. With a \<^verbatim>\<open>gpio_configure_pads\<close> that
  only records its calls, each leaves exactly that one call.
\<close>

theorem gpio_early_equals_normal:
  "mainboard_configure_early_gpios gpio_configure_pads gpio_table =
     mainboard_configure_gpios gpio_configure_pads gpio_table
   \<and> mainboard_configure_gpios gpio_configure_pads gpio_table s =
       gpio_configure_pads gpio_table (length gpio_table) s
   \<and> mainboard_configure_early_gpios gpio_configure_pads gpio_table s =
       gpio_configure_pads gpio_table (length gpio_table) s
   \<and> mainboard_configure_gpios (\<lambda>tbl n calls. calls @ [(tbl, n)]) gpio_table [] =
       [(gpio_table, length gpio_table)]
   \<and> mainboard_configure_early_gpios (\<lambda>tbl n calls. calls @ [(tbl, n)]) gpio_table [] =
       [(gpio_table, length gpio_table)]"
  by (auto simp: mainboard_configure_early_gpios_def mainboard_configure_gpios_def fun_eq_iff)

end
